theory Spec2Isabelle
  imports Complex_Main
begin

section \<open>Values, JSON and exceptions\<close>

text \<open>
  The script \<^verbatim>\<open>scripts/fetch_transcript.py\<close> copies three fields of every transcript
  entry into a dictionary and prints the list with \<^verbatim>\<open>json.dumps\<close>. It never computes
  with a field, so a field value is one of the scalars the JSON encoder accepts, or an
  object of some class that the encoder rejects (\<open>PyOpaque\<close>, with the class name).
  Numbers are carried through unchanged.
\<close>

datatype pyval = PyNone | PyBool bool | PyStr string | PyNum rat | PyOpaque string

text \<open>
  What \<^verbatim>\<open>json.dumps\<close> produces is kept as the JSON value itself; an object keeps its
  members in insertion order, as a Python dictionary does.
\<close>

datatype json =
    JNull
  | JBool bool
  | JString string
  | JNumber rat
  | JArray "json list"
  | JObject "(string \<times> json) list"

text \<open>
  Exceptions, each with the text that \<^verbatim>\<open>str(e)\<close> returns. \<open>TranscriptsDisabled\<close> and
  \<open>NoTranscriptFound\<close> are the two classes the script imports from the provider; the
  others are subclasses of \<^verbatim>\<open>Exception\<close> too. \<^verbatim>\<open>sys.exit(n)\<close> raises \<^verbatim>\<open>SystemExit\<close>,
  which is not a subclass of \<^verbatim>\<open>Exception\<close>: \<open>raised\<close> keeps the two apart.
\<close>

datatype exception =
    TranscriptsDisabled string
  | NoTranscriptFound string
  | AttributeError string
  | KeyError string
  | TypeError string
  | OtherException string

fun str :: "exception \<Rightarrow> string" where
  "str (TranscriptsDisabled m) = m"
| "str (NoTranscriptFound m) = m"
| "str (AttributeError m) = m"
| "str (KeyError m) = m"
| "str (TypeError m) = m"
| "str (OtherException m) = m"

datatype raised = Exc exception | SystemExit int

definition quoted :: "string \<Rightarrow> string" where
  "quoted s = CHR 0x27 # s @ [CHR 0x27]"

section \<open>Transcript entries\<close>

text \<open>
  An entry of a fetched transcript is either an object with attributes (\<open>Obj\<close>, with
  its class name) or a \<^verbatim>\<open>dict\<close> (\<open>Dict\<close>). \<^verbatim>\<open>i.text\<close> is \<open>getattr\<close> and \<^verbatim>\<open>i["text"]\<close>
  is \<open>getitem\<close>; each raises on the form it does not fit and on a missing field.
\<close>

datatype entry =
    Obj string "(string \<times> pyval) list"
  | Dict "(string \<times> pyval) list"

fun is_dict :: "entry \<Rightarrow> bool" where
  "is_dict (Dict _) = True"
| "is_dict (Obj _ _) = False"

fun getattr :: "entry \<Rightarrow> string \<Rightarrow> exception + pyval" where
  "getattr (Obj cls attrs) name =
     (case map_of attrs name of
        Some v \<Rightarrow> Inr v
      | None \<Rightarrow> Inl (AttributeError (quoted cls @ '' object has no attribute '' @ quoted name)))"
| "getattr (Dict _) name =
     Inl (AttributeError (quoted ''dict'' @ '' object has no attribute '' @ quoted name))"

fun getitem :: "entry \<Rightarrow> string \<Rightarrow> exception + pyval" where
  "getitem (Dict items) key =
     (case map_of items key of
        Some v \<Rightarrow> Inr v
      | None \<Rightarrow> Inl (KeyError (quoted key)))"
| "getitem (Obj cls _) key = Inl (TypeError (quoted cls @ '' object is not subscriptable''))"

text \<open>
  A list comprehension \<^verbatim>\<open>[f(i) for i in data]\<close> evaluates \<open>f\<close> on the elements in
  order and stops at the first exception.
\<close>

fun comprehension :: "('a \<Rightarrow> exception + 'b) \<Rightarrow> 'a list \<Rightarrow> exception + 'b list" where
  "comprehension f [] = Inr []"
| "comprehension f (i # data) =
     (case f i of
        Inl e \<Rightarrow> Inl e
      | Inr y \<Rightarrow>
          (case comprehension f data of
             Inl e \<Rightarrow> Inl e
           | Inr ys \<Rightarrow> Inr (y # ys)))"

text \<open>The two dictionary displays of the script, fields read left to right.\<close>

definition from_attributes :: "entry \<Rightarrow> exception + (string \<times> pyval) list" where
  "from_attributes i =
     (case getattr i ''text'' of
        Inl e \<Rightarrow> Inl e
      | Inr t \<Rightarrow>
          (case getattr i ''duration'' of
             Inl e \<Rightarrow> Inl e
           | Inr d \<Rightarrow>
               (case getattr i ''start'' of
                  Inl e \<Rightarrow> Inl e
                | Inr s \<Rightarrow> Inr [(''text'', t), (''duration'', d), (''offset'', s)])))"

definition from_items :: "entry \<Rightarrow> exception + (string \<times> pyval) list" where
  "from_items i =
     (case getitem i ''text'' of
        Inl e \<Rightarrow> Inl e
      | Inr t \<Rightarrow>
          (case getitem i ''duration'' of
             Inl e \<Rightarrow> Inl e
           | Inr d \<Rightarrow>
               (case getitem i ''start'' of
                  Inl e \<Rightarrow> Inl e
                | Inr s \<Rightarrow> Inr [(''text'', t), (''duration'', d), (''offset'', s)])))"

text \<open>
  The test \<^verbatim>\<open>data and not isinstance(data[0], dict)\<close> looks at the first entry only;
  an empty sequence takes the second branch.
\<close>

definition formatted :: "entry list \<Rightarrow> exception + (string \<times> pyval) list list" where
  "formatted data =
     (if (case data of [] \<Rightarrow> False | i # _ \<Rightarrow> \<not> is_dict i)
      then comprehension from_attributes data
      else comprehension from_items data)"

section \<open>Serialisation\<close>

fun encode :: "pyval \<Rightarrow> exception + json" where
  "encode PyNone = Inr JNull"
| "encode (PyBool b) = Inr (JBool b)"
| "encode (PyStr s) = Inr (JString s)"
| "encode (PyNum n) = Inr (JNumber n)"
| "encode (PyOpaque cls) =
     Inl (TypeError (''Object of type '' @ cls @ '' is not JSON serializable''))"

definition encode_member :: "string \<times> pyval \<Rightarrow> exception + string \<times> json" where
  "encode_member kv =
     (case encode (snd kv) of Inl e \<Rightarrow> Inl e | Inr j \<Rightarrow> Inr (fst kv, j))"

definition encode_dict :: "(string \<times> pyval) list \<Rightarrow> exception + json" where
  "encode_dict d =
     (case comprehension encode_member d of Inl e \<Rightarrow> Inl e | Inr ms \<Rightarrow> Inr (JObject ms))"

definition dumps :: "(string \<times> pyval) list list \<Rightarrow> exception + json" where
  "dumps ds =
     (case comprehension encode_dict ds of Inl e \<Rightarrow> Inl e | Inr js \<Rightarrow> Inr (JArray js))"

definition error_object :: "string \<Rightarrow> json" where
  "error_object m = JObject [(''error'', JString m)]"

section \<open>The provider\<close>

text \<open>
  The transcript library is not part of the repository: it is a parameter. A track has
  its language code, its kind and what \<^verbatim>\<open>fetch()\<close> gives; a transcript list has the two
  lookups the script calls and its tracks in iteration order; the provider lists the
  tracks of a video identifier. Every call may raise an \<^verbatim>\<open>Exception\<close>.
\<close>

record track =
  language_code :: string
  is_generated :: bool
  fetch :: "exception + entry list"

record transcript_list =
  find_transcript :: "string list \<Rightarrow> exception + track"
  find_generated_transcript :: "string list \<Rightarrow> exception + track"
  tracks :: "track list"

record provider =
  api_list :: "string \<Rightarrow> exception + transcript_list"

section \<open>Effects\<close>

text \<open>
  The script prints to standard output and calls the provider. The state records both:
  the JSON values printed, oldest first, and the provider calls made, oldest first.
\<close>

datatype call =
    CallList string
  | CallFindTranscript "string list"
  | CallFindGenerated "string list"
  | CallIter
  | CallFetch track

record world =
  stdout :: "json list"
  calls :: "call list"

definition print :: "json \<Rightarrow> world \<Rightarrow> world" where
  "print j w = w\<lparr>stdout := stdout w @ [j]\<rparr>"

definition called :: "call \<Rightarrow> world \<Rightarrow> world" where
  "called c w = w\<lparr>calls := calls w @ [c]\<rparr>"

definition start :: world where
  "start = \<lparr>stdout = [], calls = []\<rparr>"

section \<open>The script\<close>

text \<open>
  Lines 12 to 22 of \<^verbatim>\<open>get_transcript\<close>: the nested \<^verbatim>\<open>try\<close> blocks that choose the
  track. Both \<^verbatim>\<open>except:\<close> clauses are bare, so any exception of a lookup moves on to
  the next tier. The variable stays \<^verbatim>\<open>None\<close> when the loop body never runs.
\<close>

definition select_track :: "transcript_list \<Rightarrow> world \<Rightarrow> track option \<times> world" where
  "select_track transcript_list w =
     (let w1 = called (CallFindTranscript [''en'']) w in
      case find_transcript transcript_list [''en''] of
        Inr t \<Rightarrow> (Some t, w1)
      | Inl _ \<Rightarrow>
          (let w2 = called (CallFindGenerated [''en'']) w1 in
           case find_generated_transcript transcript_list [''en''] of
             Inr t \<Rightarrow> (Some t, w2)
           | Inl _ \<Rightarrow>
               (let w3 = called CallIter w2 in
                case tracks transcript_list of
                  [] \<Rightarrow> (None, w3)
                | t # _ \<Rightarrow> (Some t, w3))))"

text \<open>
  Lines 24 to 35: \<^verbatim>\<open>if transcript:\<close> is false for \<^verbatim>\<open>None\<close> only (a track object is
  true, as every object without its own truth value is). The \<^verbatim>\<open>else\<close> branch prints
  and calls \<^verbatim>\<open>sys.exit(1)\<close>.
\<close>

definition emit :: "track option \<Rightarrow> world \<Rightarrow> (raised + unit) \<times> world" where
  "emit transcript w =
     (case transcript of
        Some t \<Rightarrow>
          (let w1 = called (CallFetch t) w in
           case fetch t of
             Inl e \<Rightarrow> (Inl (Exc e), w1)
           | Inr data \<Rightarrow>
               (case formatted data of
                  Inl e \<Rightarrow> (Inl (Exc e), w1)
                | Inr ds \<Rightarrow>
                    (case dumps ds of
                       Inl e \<Rightarrow> (Inl (Exc e), w1)
                     | Inr j \<Rightarrow> (Inr (), print j w1))))
      | None \<Rightarrow> (Inl (SystemExit 1), print (error_object ''No transcript found'') w))"

text \<open>The body of the outer \<^verbatim>\<open>try\<close>, lines 7 to 35.\<close>

definition try_body :: "provider \<Rightarrow> string \<Rightarrow> world \<Rightarrow> (raised + unit) \<times> world" where
  "try_body api video_id w =
     (let w1 = called (CallList video_id) w in
      case api_list api video_id of
        Inl e \<Rightarrow> (Inl (Exc e), w1)
      | Inr transcript_list \<Rightarrow>
          (case select_track transcript_list w1 of (transcript, w2) \<Rightarrow> emit transcript w2))"

text \<open>
  Lines 37 to 42: the two handlers. The first takes the provider's two classes, the
  second every other \<^verbatim>\<open>Exception\<close>; both print the error object and exit with 1.
\<close>

fun handler :: "exception \<Rightarrow> world \<Rightarrow> (raised + unit) \<times> world" where
  "handler (TranscriptsDisabled m) w =
     (Inl (SystemExit 1), print (error_object (str (TranscriptsDisabled m))) w)"
| "handler (NoTranscriptFound m) w =
     (Inl (SystemExit 1), print (error_object (str (NoTranscriptFound m))) w)"
| "handler e w = (Inl (SystemExit 1), print (error_object (str e)) w)"

text \<open>\<^verbatim>\<open>SystemExit\<close> passes through both handlers.\<close>

definition get_transcript :: "provider \<Rightarrow> string \<Rightarrow> world \<Rightarrow> (raised + unit) \<times> world" where
  "get_transcript api video_id w =
     (case try_body api video_id w of
        (Inl (Exc e), w') \<Rightarrow> handler e w'
      | (Inl (SystemExit n), w') \<Rightarrow> (Inl (SystemExit n), w')
      | (Inr u, w') \<Rightarrow> (Inr u, w'))"

text \<open>Lines 44 to 50, the \<^verbatim>\<open>__main__\<close> block, on the argument vector.\<close>

definition main :: "provider \<Rightarrow> string list \<Rightarrow> world \<Rightarrow> (raised + unit) \<times> world" where
  "main api argv w =
     (if length argv < 2
      then (Inl (SystemExit 1), print (error_object ''No video ID provided'') w)
      else get_transcript api (argv ! 1) w)"

text \<open>
  How the process ends: status 0 when the script runs to its end, the status given to
  \<^verbatim>\<open>sys.exit\<close>, or an uncaught exception (a traceback, and status 1).
\<close>

datatype outcome = Exited int | Crashed exception

fun finish :: "raised + unit \<Rightarrow> outcome" where
  "finish (Inr _) = Exited 0"
| "finish (Inl (SystemExit n)) = Exited n"
| "finish (Inl (Exc e)) = Crashed e"


definition run :: "provider \<Rightarrow> string list \<Rightarrow> outcome \<times> world" where
  "run api argv = (case main api argv start of (r, w) \<Rightarrow> (finish r, w))"

section \<open>Notions the properties are stated with\<close>

text \<open>
  The track that \<open>select_track\<close> chooses, without the effects.
\<close>

definition selected :: "transcript_list \<Rightarrow> track option" where
  "selected transcript_list = fst (select_track transcript_list start)"

text \<open>
  Normalisation as the specification words it: the three fields are read from whichever
  form the entry has, and the record has the keys text, duration and offset, the last
  taken from the start field. An entry that lacks a field has no normal form.
\<close>

fun field :: "entry \<Rightarrow> string \<Rightarrow> pyval option" where
  "field (Obj _ attrs) name = map_of attrs name"
| "field (Dict items) name = map_of items name"

definition normal_record :: "entry \<Rightarrow> (string \<times> pyval) list option" where
  "normal_record i =
     (case field i ''text'' of
        None \<Rightarrow> None
      | Some t \<Rightarrow>
          (case field i ''duration'' of
             None \<Rightarrow> None
           | Some d \<Rightarrow>
               (case field i ''start'' of
                  None \<Rightarrow> None
                | Some s \<Rightarrow> Some [(''text'', t), (''duration'', d), (''offset'', s)])))"

text \<open>The normal form of an entry as the JSON object that is printed for it.\<close>

definition normal_json :: "entry \<Rightarrow> json option" where
  "normal_json i =
     (case normal_record i of
        None \<Rightarrow> None
      | Some r \<Rightarrow> (case encode_dict r of Inl _ \<Rightarrow> None | Inr j \<Rightarrow> Some j))"

text \<open>All entries of a sequence have the form of the first one.\<close>

fun same_form :: "entry list \<Rightarrow> bool" where
  "same_form [] = True"
| "same_form (i # data) = list_all (\<lambda>j. is_dict j = is_dict i) data"

text \<open>
  A JSON object with exactly the keys text, duration and offset; the success array; an
  object with an error key.
\<close>

fun record_shape :: "json \<Rightarrow> bool" where
  "record_shape (JObject ms) = (map fst ms = [''text'', ''duration'', ''offset''])"
| "record_shape _ = False"

fun success_array :: "json \<Rightarrow> bool" where
  "success_array (JArray js) = list_all record_shape js"
| "success_array _ = False"

fun has_error_key :: "json \<Rightarrow> bool" where
  "has_error_key (JObject ms) = (''error'' \<in> set (map fst ms))"
| "has_error_key _ = False"

text \<open>The two exception classes of the first handler.\<close>

fun unavailable :: "exception \<Rightarrow> bool" where
  "unavailable (TranscriptsDisabled _) = True"
| "unavailable (NoTranscriptFound _) = True"
| "unavailable _ = False"

section \<open>Sample providers\<close>

text \<open>
  A video with three tracks: French first, then English written by hand, then English
  generated. The hand-written English entries are dictionaries, the generated ones
  objects. Variants of the list drop the English tracks; with the generated English track
  alone, the lookup of an English transcript either raises (\<open>generated_only\<close>) or falls
  back to the generated track itself (\<open>generated_first_tier\<close>). The sequence \<open>mixed\<close> has an
  object and then a dictionary; the entry of \<open>offset_keyed\<close> has its time under the key
  offset, not start.
\<close>

definition hello :: "entry list" where
  "hello =
     [Dict [(''start'', PyNum 0), (''duration'', PyNum (5 / 2)), (''text'', PyStr ''Hello'')]]"

definition hello_objects :: "entry list" where
  "hello_objects =
     [Obj ''FetchedTranscriptSnippet''
        [(''text'', PyStr ''Hello''), (''start'', PyNum 0), (''duration'', PyNum (5 / 2))],
      Obj ''FetchedTranscriptSnippet''
        [(''text'', PyStr ''world''), (''start'', PyNum (5 / 2)), (''duration'', PyNum 1)]]"

definition bonjour :: "entry list" where
  "bonjour = [Dict [(''text'', PyStr ''Bonjour''), (''start'', PyNum 0), (''duration'', PyNum 2)]]"

definition mixed :: "entry list" where
  "mixed =
     [Obj ''FetchedTranscriptSnippet''
        [(''text'', PyStr ''Hello''), (''start'', PyNum 0), (''duration'', PyNum (5 / 2))],
      Dict [(''text'', PyStr ''world''), (''start'', PyNum (5 / 2)), (''duration'', PyNum 1)]]"

definition offset_keyed :: "entry list" where
  "offset_keyed =
     [Dict [(''text'', PyStr ''Hello''), (''offset'', PyNum 0), (''duration'', PyNum (5 / 2))]]"

definition en_manual :: track where
  "en_manual = \<lparr>language_code = ''en'', is_generated = False, fetch = Inr hello\<rparr>"

definition en_generated :: track where
  "en_generated = \<lparr>language_code = ''en'', is_generated = True, fetch = Inr hello_objects\<rparr>"

definition fr_manual :: track where
  "fr_manual = \<lparr>language_code = ''fr'', is_generated = False, fetch = Inr bonjour\<rparr>"

definition en_silent :: track where
  "en_silent = \<lparr>language_code = ''en'', is_generated = False, fetch = Inr []\<rparr>"

definition en_blocked :: track where
  "en_blocked =
     \<lparr>language_code = ''en'', is_generated = False,
      fetch = Inl (NoTranscriptFound ''No transcripts were found'')\<rparr>"

definition not_found :: "string list \<Rightarrow> exception + track" where
  "not_found codes = Inl (NoTranscriptFound ''No transcripts were found'')"

definition lookup :: "track \<Rightarrow> string list \<Rightarrow> exception + track" where
  "lookup t codes = (if language_code t \<in> set codes then Inr t else not_found codes)"

definition all_three :: transcript_list where
  "all_three =
     \<lparr>find_transcript = lookup en_manual,
      find_generated_transcript = lookup en_generated,
      tracks = [fr_manual, en_manual, en_generated]\<rparr>"

definition generated_only :: transcript_list where
  "generated_only =
     \<lparr>find_transcript = not_found,
      find_generated_transcript = lookup en_generated,
      tracks = [fr_manual, en_generated]\<rparr>"

definition generated_first_tier :: transcript_list where
  "generated_first_tier =
     \<lparr>find_transcript = lookup en_generated,
      find_generated_transcript = lookup en_generated,
      tracks = [fr_manual, en_generated]\<rparr>"

definition french_only :: transcript_list where
  "french_only =
     \<lparr>find_transcript = not_found,
      find_generated_transcript = not_found,
      tracks = [fr_manual]\<rparr>"

definition no_tracks :: transcript_list where
  "no_tracks =
     \<lparr>find_transcript = not_found,
      find_generated_transcript = not_found,
      tracks = []\<rparr>"

definition en_mixed :: track where
  "en_mixed = \<lparr>language_code = ''en'', is_generated = False, fetch = Inr mixed\<rparr>"

definition mixed_only :: transcript_list where
  "mixed_only =
     \<lparr>find_transcript = lookup en_mixed,
      find_generated_transcript = not_found,
      tracks = [en_mixed]\<rparr>"

definition silent :: transcript_list where
  "silent =
     \<lparr>find_transcript = lookup en_silent,
      find_generated_transcript = not_found,
      tracks = [en_silent]\<rparr>"

definition blocked :: transcript_list where
  "blocked =
     \<lparr>find_transcript = lookup en_blocked,
      find_generated_transcript = not_found,
      tracks = [en_blocked]\<rparr>"

definition serving :: "transcript_list \<Rightarrow> provider" where
  "serving transcript_list = \<lparr>api_list = (\<lambda>video_id. Inr transcript_list)\<rparr>"

definition disabled :: provider where
  "disabled = \<lparr>api_list = (\<lambda>video_id. Inl (TranscriptsDisabled ''Subtitles are disabled''))\<rparr>"

definition command_line :: "string list" where
  "command_line = [''fetch_transcript.py'', ''abc123'']"

section \<open>Facts about the model\<close>

subsection \<open>Comprehensions\<close>

lemma comprehension_Inr_D:
  "comprehension f xs = Inr ys \<Longrightarrow> list_all2 (\<lambda>x y. f x = Inr y) xs ys"
  by (induction xs arbitrary: ys) (auto split: sum.splits)

lemma comprehension_Inr_I:
  "list_all2 (\<lambda>x y. f x = Inr y) xs ys \<Longrightarrow> comprehension f xs = Inr ys"
  by (induction xs ys rule: list_all2_induct) simp_all

subsection \<open>Effects of the steps\<close>

lemma handler_eq: "handler e w = (Inl (SystemExit 1), print (error_object (str e)) w)"
  by (cases e) simp_all

lemma calls_print [simp]: "calls (print j w) = calls w"
  by (simp add: print_def)

lemma stdout_print [simp]: "stdout (print j w) = stdout w @ [j]"
  by (simp add: print_def)

lemma calls_called [simp]: "calls (called c w) = calls w @ [c]"
  by (simp add: called_def)

lemma stdout_called [simp]: "stdout (called c w) = stdout w"
  by (simp add: called_def)

lemma fst_select_track: "fst (select_track transcript_list w) = selected transcript_list"
  by (simp add: selected_def select_track_def Let_def split: sum.splits list.splits)

lemma stdout_select_track [simp]: "stdout (snd (select_track transcript_list w)) = stdout w"
  by (simp add: select_track_def Let_def split: sum.splits list.splits)

subsection \<open>Normalisation\<close>

lemma from_attributes_Inr:
  "from_attributes i = Inr r \<longleftrightarrow> \<not> is_dict i \<and> normal_record i = Some r"
  by (cases i) (auto simp: from_attributes_def normal_record_def split: option.splits)

lemma from_items_Inr:
  "from_items i = Inr r \<longleftrightarrow> is_dict i \<and> normal_record i = Some r"
  by (cases i) (auto simp: from_items_def normal_record_def split: option.splits)

lemma comprehension_Cons_Inr:
  "comprehension f (x # xs) = Inr ys \<longleftrightarrow>
     (\<exists>y zs. ys = y # zs \<and> f x = Inr y \<and> comprehension f xs = Inr zs)"
  by (auto split: sum.splits)

lemma comprehension_Inr_map:
  assumes "\<And>x y. f x = Inr y \<longleftrightarrow> p x \<and> g x = Some y"
  shows "comprehension f xs = Inr ys \<longleftrightarrow> list_all p xs \<and> map g xs = map Some ys"
proof (induction xs arbitrary: ys)
  case Nil
  show ?case by auto
next
  case (Cons x xs)
  show ?case
    unfolding comprehension_Cons_Inr Cons.IH assms
    by (cases ys) auto
qed

lemma comprehension_attributes:
  "comprehension from_attributes data = Inr rs \<longleftrightarrow>
     list_all (\<lambda>i. \<not> is_dict i) data \<and> map normal_record data = map Some rs"
  by (rule comprehension_Inr_map) (rule from_attributes_Inr)

lemma comprehension_items:
  "comprehension from_items data = Inr rs \<longleftrightarrow>
     list_all is_dict data \<and> map normal_record data = map Some rs"
  by (rule comprehension_Inr_map) (rule from_items_Inr)

lemma formatted_Inr:
  "formatted data = Inr rs \<longleftrightarrow> same_form data \<and> map normal_record data = map Some rs"
proof (cases data)
  case Nil
  then show ?thesis by (auto simp: formatted_def)
next
  case (Cons i rest)
  show ?thesis
  proof (cases "is_dict i")
    case True
    then have "formatted data = comprehension from_items data"
      using Cons by (simp add: formatted_def)
    moreover have "same_form data = list_all is_dict data"
      using Cons True by (simp add: list_all_iff)
    ultimately show ?thesis
      by (simp only: comprehension_items)
  next
    case False
    then have "formatted data = comprehension from_attributes data"
      using Cons by (simp add: formatted_def)
    moreover have "same_form data = list_all (\<lambda>i. \<not> is_dict i) data"
      using Cons False by (simp add: list_all_iff)
    ultimately show ?thesis
      by (simp only: comprehension_attributes)
  qed
qed

subsection \<open>Serialisation of normal records\<close>

lemma encode_member_Inr: "encode_member kv = Inr m \<Longrightarrow> fst m = fst kv"
  by (auto simp: encode_member_def split: sum.splits)

lemma encode_dict_keys:
  assumes "encode_dict d = Inr j"
  shows "\<exists>ms. j = JObject ms \<and> map fst ms = map fst d"
proof -
  from assms obtain ms where ms: "comprehension encode_member d = Inr ms" and j: "j = JObject ms"
    by (auto simp: encode_dict_def split: sum.splits)
  from ms have "list_all2 (\<lambda>kv m. encode_member kv = Inr m) d ms"
    by (rule comprehension_Inr_D)
  then have "map fst ms = map fst d"
    by (induction d ms rule: list_all2_induct) (simp_all add: encode_member_Inr)
  with j show ?thesis by simp
qed

lemma normal_record_keys:
  "normal_record i = Some r \<Longrightarrow> map fst r = [''text'', ''duration'', ''offset'']"
  by (auto simp: normal_record_def split: option.splits)

lemma normal_json_shape: "normal_json i = Some j \<Longrightarrow> record_shape j"
  by (auto simp: normal_json_def split: option.splits sum.splits
      dest!: encode_dict_keys normal_record_keys)

lemma normal_json_Some:
  "normal_record i = Some r \<Longrightarrow> normal_json i = Some j \<longleftrightarrow> encode_dict r = Inr j"
  by (auto simp: normal_json_def split: sum.splits)

lemma encode_normal_records:
  "map normal_record data = map Some rs \<Longrightarrow>
     comprehension encode_dict rs = Inr js \<longleftrightarrow> map normal_json data = map Some js"
proof (induction data arbitrary: rs js)
  case Nil
  then show ?case by auto
next
  case (Cons i data)
  then obtain r rs' where rs: "rs = r # rs'" and r: "normal_record i = Some r"
    and rest: "map normal_record data = map Some rs'"
    by (cases rs) auto
  show ?case
    unfolding rs comprehension_Cons_Inr Cons.IH [OF rest]
    by (cases js) (auto simp: normal_json_Some [OF r])
qed

lemma normal_json_records:
  "map normal_json data = map Some js \<Longrightarrow> \<exists>rs. map normal_record data = map Some rs"
proof (induction data arbitrary: js)
  case Nil
  then show ?case by simp
next
  case (Cons i data)
  then obtain j js' where "js = j # js'" and j: "normal_json i = Some j"
    and rest: "map normal_json data = map Some js'"
    by (cases js) auto
  from j obtain r where r: "normal_record i = Some r"
    by (auto simp: normal_json_def split: option.splits)
  from Cons.IH [OF rest] obtain rs where "map normal_record data = map Some rs" ..
  with r have "map normal_record (i # data) = map Some (r # rs)" by simp
  then show ?case ..
qed

lemma render_Inr:
  "(case formatted data of Inl e \<Rightarrow> Inl e | Inr ds \<Rightarrow> dumps ds) = Inr j \<longleftrightarrow>
     same_form data \<and> (\<exists>js. j = JArray js \<and> map normal_json data = map Some js)"
proof
  assume "(case formatted data of Inl e \<Rightarrow> Inl e | Inr ds \<Rightarrow> dumps ds) = Inr j"
  then obtain rs js where f: "formatted data = Inr rs"
    and c: "comprehension encode_dict rs = Inr js" and j: "j = JArray js"
    by (auto simp: dumps_def split: sum.splits)
  from f have sf: "same_form data" and rs: "map normal_record data = map Some rs"
    by (simp_all add: formatted_Inr)
  from c have "map normal_json data = map Some js"
    by (simp add: encode_normal_records [OF rs])
  with sf j show "same_form data \<and> (\<exists>js. j = JArray js \<and> map normal_json data = map Some js)"
    by blast
next
  assume "same_form data \<and> (\<exists>js. j = JArray js \<and> map normal_json data = map Some js)"
  then obtain js where sf: "same_form data" and j: "j = JArray js"
    and js: "map normal_json data = map Some js"
    by blast
  from normal_json_records [OF js] obtain rs where rs: "map normal_record data = map Some rs" ..
  with sf have "formatted data = Inr rs" by (simp add: formatted_Inr)
  moreover from js have "comprehension encode_dict rs = Inr js"
    by (simp add: encode_normal_records [OF rs])
  ultimately show "(case formatted data of Inl e \<Rightarrow> Inl e | Inr ds \<Rightarrow> dumps ds) = Inr j"
    using j by (simp add: dumps_def)
qed

subsection \<open>The steps of a run\<close>

lemma emit_None:
  "emit None w = (Inl (SystemExit 1), print (error_object ''No transcript found'') w)"
  by (simp add: emit_def)

lemma emit_Some:
  "emit (Some t) w =
     (case fetch t of
        Inl e \<Rightarrow> (Inl (Exc e), called (CallFetch t) w)
      | Inr data \<Rightarrow>
          (case (case formatted data of Inl e \<Rightarrow> Inl e | Inr ds \<Rightarrow> dumps ds) of
             Inl e \<Rightarrow> (Inl (Exc e), called (CallFetch t) w)
           | Inr j \<Rightarrow> (Inr (), print j (called (CallFetch t) w))))"
  by (simp add: emit_def Let_def split: sum.splits)

lemma get_transcript_unlisted:
  "api_list api video_id = Inl e \<Longrightarrow>
     get_transcript api video_id w =
       (Inl (SystemExit 1), print (error_object (str e)) (called (CallList video_id) w))"
  by (simp add: get_transcript_def try_body_def Let_def handler_eq)

lemma get_transcript_listed:
  assumes "api_list api video_id = Inr transcript_list"
  shows "get_transcript api video_id w =
       (case emit (selected transcript_list)
               (snd (select_track transcript_list (called (CallList video_id) w))) of
          (Inl (Exc e), w') \<Rightarrow> handler e w'
        | (Inl (SystemExit n), w') \<Rightarrow> (Inl (SystemExit n), w')
        | (Inr u, w') \<Rightarrow> (Inr u, w'))"
proof -
  obtain tr w2 where s: "select_track transcript_list (called (CallList video_id) w) = (tr, w2)"
    by (cases "select_track transcript_list (called (CallList video_id) w)")
  then have "tr = selected transcript_list"
    using fst_select_track [of transcript_list "called (CallList video_id) w"] by simp
  with s assms show ?thesis
    by (simp add: get_transcript_def try_body_def Let_def)
qed

lemma run_with_id:
  "2 \<le> length argv \<Longrightarrow>
     run api argv = (case get_transcript api (argv ! 1) start of (r, w) \<Rightarrow> (finish r, w))"
  by (simp add: run_def main_def)

subsection \<open>Selection and the provider calls\<close>

lemma select_first:
  "find_transcript transcript_list [''en''] = Inr t \<Longrightarrow>
     select_track transcript_list w = (Some t, called (CallFindTranscript [''en'']) w)"
  by (simp add: select_track_def)

lemma select_second:
  "find_transcript transcript_list [''en''] = Inl e \<Longrightarrow>
   find_generated_transcript transcript_list [''en''] = Inr t \<Longrightarrow>
     select_track transcript_list w =
       (Some t, called (CallFindGenerated [''en'']) (called (CallFindTranscript [''en'']) w))"
  by (simp add: select_track_def)

lemma select_third:
  "find_transcript transcript_list [''en''] = Inl e \<Longrightarrow>
   find_generated_transcript transcript_list [''en''] = Inl e' \<Longrightarrow>
     select_track transcript_list w =
       (case tracks transcript_list of [] \<Rightarrow> None | t # _ \<Rightarrow> Some t,
        called CallIter
          (called (CallFindGenerated [''en'']) (called (CallFindTranscript [''en'']) w)))"
  by (simp add: select_track_def split: list.splits)

lemma calls_handler [simp]: "calls (snd (handler e w)) = calls w"
  by (simp add: handler_eq)

lemma calls_emit:
  "calls (snd (emit tr w)) = calls w @ (case tr of None \<Rightarrow> [] | Some t \<Rightarrow> [CallFetch t])"
  by (simp add: emit_def Let_def split: option.splits sum.splits)

lemma calls_get_transcript:
  assumes "api_list api video_id = Inr transcript_list"
  shows "calls (snd (get_transcript api video_id w)) =
     calls (snd (select_track transcript_list (called (CallList video_id) w))) @
       (case selected transcript_list of None \<Rightarrow> [] | Some t \<Rightarrow> [CallFetch t])"
proof -
  let ?w = "snd (select_track transcript_list (called (CallList video_id) w))"
  obtain r w' where e: "emit (selected transcript_list) ?w = (r, w')"
    by (cases "emit (selected transcript_list) ?w")
  then have "calls w' =
      calls ?w @ (case selected transcript_list of None \<Rightarrow> [] | Some t \<Rightarrow> [CallFetch t])"
    using calls_emit [of "selected transcript_list" ?w] by simp
  with e show ?thesis
    by (simp add: get_transcript_listed [OF assms] split: sum.splits raised.splits)
qed

lemma calls_run:
  "2 \<le> length argv \<Longrightarrow>
     calls (snd (run api argv)) = calls (snd (get_transcript api (argv ! 1) start))"
  by (simp add: run_with_id split: prod.splits)

lemma calls_start [simp]: "calls start = []"
  by (simp add: start_def)

lemma stdout_start [simp]: "stdout start = []"
  by (simp add: start_def)

subsection \<open>The outcome of a run\<close>

lemma normal_json_shapes:
  "map normal_json data = map Some js \<Longrightarrow> list_all record_shape js"
proof (induction data arbitrary: js)
  case Nil
  then show ?case by simp
next
  case (Cons i data)
  then show ?case
    by (cases js) (auto simp: normal_json_shape)
qed

lemma error_object_key [simp]: "has_error_key (error_object m)"
  by (simp add: error_object_def)

lemma error_object_no_array [simp]: "\<not> success_array (error_object m)"
  by (simp add: error_object_def)

lemma emit_cases:
  obtains (printed) t data js where "tr = Some t" and "fetch t = Inr data"
      and "same_form data" and "map normal_json data = map Some js"
      and "emit tr w = (Inr (), print (JArray js) (called (CallFetch t) w))"
    | (raised) t e where "tr = Some t"
      and "emit tr w = (Inl (Exc e), called (CallFetch t) w)"
    | (none) "tr = None"
      and "emit tr w = (Inl (SystemExit 1), print (error_object ''No transcript found'') w)"
proof (cases tr)
  case None
  then show ?thesis using none by (simp add: emit_None)
next
  case (Some t)
  show ?thesis
  proof (cases "fetch t")
    case (Inl e)
    then show ?thesis using raised [of t e] Some by (simp add: emit_Some)
  next
    case data: (Inr data)
    show ?thesis
    proof (cases "case formatted data of Inl e \<Rightarrow> Inl e | Inr ds \<Rightarrow> dumps ds")
      case (Inl e)
      then show ?thesis using raised [of t e] Some data by (simp add: emit_Some)
    next
      case (Inr j)
      then obtain js where "same_form data" and "j = JArray js"
        and "map normal_json data = map Some js"
        unfolding render_Inr by blast
      then show ?thesis using printed [of t data js] Some data Inr by (simp add: emit_Some)
    qed
  qed
qed

lemma get_transcript_outcome:
  "\<exists>j w'. stdout w' = stdout w @ [j] \<and>
     (get_transcript api video_id w = (Inr (), w') \<and> success_array j \<or>
      get_transcript api video_id w = (Inl (SystemExit 1), w') \<and> has_error_key j)"
proof (cases "api_list api video_id")
  case (Inl e)
  then show ?thesis
    by (simp add: get_transcript_unlisted)
next
  case (Inr transcript_list)
  let ?w = "snd (select_track transcript_list (called (CallList video_id) w))"
  have w: "stdout ?w = stdout w" by simp
  show ?thesis
  proof (cases "selected transcript_list" ?w rule: emit_cases)
    case (printed t data js)
    then show ?thesis
      using w by (simp add: get_transcript_listed [OF Inr] normal_json_shapes)
  next
    case (raised t e)
    then show ?thesis
      using w by (simp add: get_transcript_listed [OF Inr] handler_eq)
  next
    case none
    then show ?thesis
      using w by (simp add: get_transcript_listed [OF Inr])
  qed
qed

lemma run_outcome:
  "\<exists>j. stdout (snd (run api argv)) = [j] \<and>
     (fst (run api argv) = Exited 0 \<and> success_array j \<or>
      fst (run api argv) = Exited 1 \<and> has_error_key j)"
proof (cases "length argv < 2")
  case True
  then show ?thesis by (simp add: run_def main_def)
next
  case False
  then have run: "run api argv =
      (case get_transcript api (argv ! 1) start of (r, w) \<Rightarrow> (finish r, w))"
    by (simp add: run_with_id)
  from get_transcript_outcome [of start api "argv ! 1"] show ?thesis
    unfolding run by auto
qed


subsection \<open>Lists and shapes\<close>

lemma record_shape_members:
  "record_shape x \<Longrightarrow> \<exists>t d s. x = JObject [(''text'', t), (''duration'', d), (''offset'', s)]"
proof (cases x)
  case (JObject ms)
  assume "record_shape x"
  with JObject have "map fst ms = [''text'', ''duration'', ''offset'']" by simp
  then obtain t d s where "ms = [(''text'', t), (''duration'', d), (''offset'', s)]"
    by (auto simp: map_eq_Cons_conv)
  with JObject show ?thesis by blast
qed simp_all

lemma success_array_elements:
  "success_array j \<Longrightarrow> \<exists>js. j = JArray js \<and> list_all record_shape js"
  by (cases j) simp_all

lemma all_defined_map:
  "list_all (\<lambda>x. g x \<noteq> None) xs \<longleftrightarrow> (\<exists>ys. map g xs = map Some ys)"
proof (induction xs)
  case Nil
  show ?case by simp
next
  case (Cons x xs)
  show ?case
  proof
    assume "list_all (\<lambda>x. g x \<noteq> None) (x # xs)"
    then obtain y ys where "g x = Some y" and "map g xs = map Some ys"
      using Cons.IH by auto
    then have "map g (x # xs) = map Some (y # ys)" by simp
    then show "\<exists>ys. map g (x # xs) = map Some ys" ..
  next
    assume "\<exists>ys. map g (x # xs) = map Some ys"
    then obtain ys where ys: "map g (x # xs) = map Some ys" ..
    then obtain z zs where "ys = z # zs" by (cases ys) auto
    with ys have "g x = Some z" and "map g xs = map Some zs" by simp_all
    then show "list_all (\<lambda>x. g x \<noteq> None) (x # xs)"
      using Cons.IH by auto
  qed
qed

lemma map_Some_nth:
  "map g xs = map Some ys \<Longrightarrow> n < length xs \<Longrightarrow> g (xs ! n) = Some (ys ! n)"
proof -
  assume m: "map g xs = map Some ys" and n: "n < length xs"
  from m have len: "length ys = length xs"
    using length_map [of g xs] length_map [of Some ys] by simp
  have "g (xs ! n) = map g xs ! n" using n by simp
  also have "\<dots> = map Some ys ! n" using m by simp
  also have "\<dots> = Some (ys ! n)" using n len by simp
  finally show ?thesis .
qed

subsection \<open>Unfolding the script on concrete inputs\<close>

lemmas script_defs =
  run_def main_def get_transcript_def try_body_def select_track_def emit_def formatted_def
  dumps_def encode_dict_def encode_member_def from_items_def from_attributes_def
  print_def called_def start_def error_object_def selected_def

section \<open>Track selection\<close>

text \<open>
  C1. When the tracks of the video identifier are listed and the provider's lookup of an
  English transcript, \<^verbatim>\<open>find_transcript(['en'])\<close>, returns a track \<open>t\<close>, the selected track
  is \<open>t\<close>. The provider calls of the run are the listing, that lookup and the fetch of
  \<open>t\<close>: the lookup of a generated English track and the iteration over the tracks are
  never made, so neither can supply the track.
\<close>

theorem explicit_english_selected:
  assumes "2 \<le> length argv"
    and "api_list api (argv ! 1) = Inr transcript_list"
    and "find_transcript transcript_list [''en''] = Inr t"
  shows "selected transcript_list = Some t \<and>
    calls (snd (run api argv)) =
      [CallList (argv ! 1), CallFindTranscript [''en''], CallFetch t]"
proof -
  have "selected transcript_list = Some t"
    using assms(3) by (simp add: selected_def select_first)
  then show ?thesis
    using assms by (simp add: calls_run calls_get_transcript select_first)
qed

theorem explicit_english_selected_witness:
  "2 \<le> length command_line \<and>
   api_list (serving all_three) (command_line ! 1) = Inr all_three \<and>
   find_transcript all_three [''en''] = Inr en_manual \<and>
   find_generated_transcript all_three [''en''] = Inr en_generated \<and>
   tracks all_three = [fr_manual, en_manual, en_generated] \<and>
   selected all_three = Some en_manual \<and>
   calls (snd (run (serving all_three) command_line)) =
     [CallList ''abc123'', CallFindTranscript [''en''], CallFetch en_manual]"
proof -
  have h1: "2 \<le> length command_line"
    by (simp add: command_line_def)
  have h2: "api_list (serving all_three) (command_line ! 1) = Inr all_three"
    by (simp add: serving_def)
  have h3: "find_transcript all_three [''en''] = Inr en_manual"
    by (simp add: all_three_def lookup_def en_manual_def)
  have h4: "find_generated_transcript all_three [''en''] = Inr en_generated"
    by (simp add: all_three_def lookup_def en_generated_def)
  have h5: "tracks all_three = [fr_manual, en_manual, en_generated]"
    by (simp add: all_three_def)
  have h6: "command_line ! 1 = ''abc123''"
    by (simp add: command_line_def)
  from explicit_english_selected [OF h1 h2 h3] h1 h2 h3 h4 h5 h6 show ?thesis
    by simp
qed

text \<open>
  C6. Let \<open>t\<close> be the generated English track, the one that
  \<^verbatim>\<open>find_generated_transcript(['en'])\<close> returns, and let there be no other English track:
  \<^verbatim>\<open>find_transcript(['en'])\<close> returns no track but \<open>t\<close>, so it either falls back to \<open>t\<close>
  itself or raises. Then the selected track is \<open>t\<close> and it is the track that is fetched.
  In the first case the provider calls are the listing, that lookup and the fetch; in
  the second the lookup of a generated track comes between. The iteration over the tracks
  is never made.
\<close>

theorem generated_english_selected:
  assumes "2 \<le> length argv"
    and "api_list api (argv ! 1) = Inr transcript_list"
    and "find_generated_transcript transcript_list [''en''] = Inr t"
    and "\<forall>t'. find_transcript transcript_list [''en''] = Inr t' \<longrightarrow> t' = t"
  shows "selected transcript_list = Some t \<and>
    calls (snd (run api argv)) =
      (case find_transcript transcript_list [''en''] of
         Inr _ \<Rightarrow> [CallList (argv ! 1), CallFindTranscript [''en''], CallFetch t]
       | Inl _ \<Rightarrow>
           [CallList (argv ! 1), CallFindTranscript [''en''], CallFindGenerated [''en''],
            CallFetch t])"
proof (cases "find_transcript transcript_list [''en'']")
  case (Inl e)
  have "selected transcript_list = Some t"
    using Inl assms(3) by (simp add: selected_def select_second)
  then show ?thesis
    using assms(1,2,3) Inl by (simp add: calls_run calls_get_transcript select_second)
next
  case (Inr t')
  with assms(4) have first: "find_transcript transcript_list [''en''] = Inr t"
    by simp
  have "selected transcript_list = Some t"
    using first by (simp add: selected_def select_first)
  then show ?thesis
    using assms(1,2) first by (simp add: calls_run calls_get_transcript select_first)
qed

theorem generated_english_selected_witness:
  "2 \<le> length command_line \<and>
   is_generated en_generated \<and>
   language_code en_generated = ''en'' \<and>
   api_list (serving generated_first_tier) (command_line ! 1) = Inr generated_first_tier \<and>
   find_generated_transcript generated_first_tier [''en''] = Inr en_generated \<and>
   find_transcript generated_first_tier [''en''] = Inr en_generated \<and>
   tracks generated_first_tier = [fr_manual, en_generated] \<and>
   selected generated_first_tier = Some en_generated \<and>
   calls (snd (run (serving generated_first_tier) command_line)) =
     [CallList ''abc123'', CallFindTranscript [''en''], CallFetch en_generated] \<and>
   api_list (serving generated_only) (command_line ! 1) = Inr generated_only \<and>
   find_generated_transcript generated_only [''en''] = Inr en_generated \<and>
   find_transcript generated_only [''en''] =
     Inl (NoTranscriptFound ''No transcripts were found'') \<and>
   tracks generated_only = [fr_manual, en_generated] \<and>
   selected generated_only = Some en_generated \<and>
   calls (snd (run (serving generated_only) command_line)) =
     [CallList ''abc123'', CallFindTranscript [''en''], CallFindGenerated [''en''],
      CallFetch en_generated]"
proof -
  have h1: "2 \<le> length command_line"
    by (simp add: command_line_def)
  have h6: "command_line ! 1 = ''abc123''"
    by (simp add: command_line_def)
  have k1: "is_generated en_generated"
    by (simp add: en_generated_def)
  have k2: "language_code en_generated = ''en''"
    by (simp add: en_generated_def)
  have f2: "api_list (serving generated_first_tier) (command_line ! 1) =
      Inr generated_first_tier"
    by (simp add: serving_def)
  have f3: "find_generated_transcript generated_first_tier [''en''] = Inr en_generated"
    by (simp add: generated_first_tier_def lookup_def en_generated_def)
  have f4: "find_transcript generated_first_tier [''en''] = Inr en_generated"
    by (simp add: generated_first_tier_def lookup_def en_generated_def)
  from f4 have f5: "\<forall>t'. find_transcript generated_first_tier [''en''] = Inr t' \<longrightarrow>
      t' = en_generated"
    by simp
  have f6: "tracks generated_first_tier = [fr_manual, en_generated]"
    by (simp add: generated_first_tier_def)
  have g2: "api_list (serving generated_only) (command_line ! 1) = Inr generated_only"
    by (simp add: serving_def)
  have g3: "find_generated_transcript generated_only [''en''] = Inr en_generated"
    by (simp add: generated_only_def lookup_def en_generated_def)
  have g4: "find_transcript generated_only [''en''] =
      Inl (NoTranscriptFound ''No transcripts were found'')"
    by (simp add: generated_only_def not_found_def)
  from g4 have g5: "\<forall>t'. find_transcript generated_only [''en''] = Inr t' \<longrightarrow>
      t' = en_generated"
    by simp
  have g6: "tracks generated_only = [fr_manual, en_generated]"
    by (simp add: generated_only_def)
  from generated_english_selected [OF h1 f2 f3 f5] generated_english_selected [OF h1 g2 g3 g5]
    h1 h6 k1 k2 f2 f3 f4 f6 g2 g3 g4 g6
  show ?thesis by simp
qed

text \<open>
  C7. When both English lookups raise, the selected track is the first track of the
  iteration, whatever its language, and it is the track that is fetched; when the
  iteration is empty no track is selected, the script prints the object
  \<^verbatim>\<open>{"error": "No transcript found"}\<close>, exits with status 1 and fetches nothing.
\<close>

theorem first_track_fallback:
  assumes "2 \<le> length argv"
    and "api_list api (argv ! 1) = Inr transcript_list"
    and "find_transcript transcript_list [''en''] = Inl e"
    and "find_generated_transcript transcript_list [''en''] = Inl e'"
  shows "case tracks transcript_list of
      t # _ \<Rightarrow>
        selected transcript_list = Some t \<and>
        calls (snd (run api argv)) =
          [CallList (argv ! 1), CallFindTranscript [''en''], CallFindGenerated [''en''],
           CallIter, CallFetch t]
    | [] \<Rightarrow>
        selected transcript_list = None \<and>
        run api argv =
          (Exited 1,
           \<lparr>stdout = [JObject [(''error'', JString ''No transcript found'')]],
            calls =
              [CallList (argv ! 1), CallFindTranscript [''en''], CallFindGenerated [''en''],
               CallIter]\<rparr>)"
proof (cases "tracks transcript_list")
  case Nil
  have sel: "selected transcript_list = None"
    using assms(3,4) Nil by (simp add: selected_def select_third)
  have "run api argv =
      (Exited 1,
       print (error_object ''No transcript found'')
         (called CallIter
           (called (CallFindGenerated [''en''])
             (called (CallFindTranscript [''en'']) (called (CallList (argv ! 1)) start)))))"
    using assms sel
    by (simp add: run_with_id get_transcript_listed select_third emit_None)
  then show ?thesis
    using Nil sel by (simp add: print_def called_def start_def error_object_def)
next
  case (Cons t ts)
  have "selected transcript_list = Some t"
    using assms(3,4) Cons by (simp add: selected_def select_third)
  then show ?thesis
    using assms Cons by (simp add: calls_run calls_get_transcript select_third)
qed

theorem first_track_fallback_witness:
  "2 \<le> length command_line \<and>
   api_list (serving french_only) (command_line ! 1) = Inr french_only \<and>
   find_transcript french_only [''en''] = Inl (NoTranscriptFound ''No transcripts were found'') \<and>
   find_generated_transcript french_only [''en''] =
     Inl (NoTranscriptFound ''No transcripts were found'') \<and>
   tracks french_only = [fr_manual] \<and>
   selected french_only = Some fr_manual \<and>
   calls (snd (run (serving french_only) command_line)) =
     [CallList ''abc123'', CallFindTranscript [''en''], CallFindGenerated [''en''], CallIter,
      CallFetch fr_manual] \<and>
   api_list (serving no_tracks) (command_line ! 1) = Inr no_tracks \<and>
   find_transcript no_tracks [''en''] = Inl (NoTranscriptFound ''No transcripts were found'') \<and>
   find_generated_transcript no_tracks [''en''] =
     Inl (NoTranscriptFound ''No transcripts were found'') \<and>
   tracks no_tracks = [] \<and>
   selected no_tracks = None \<and>
   run (serving no_tracks) command_line =
     (Exited 1,
      \<lparr>stdout = [JObject [(''error'', JString ''No transcript found'')]],
       calls =
         [CallList ''abc123'', CallFindTranscript [''en''], CallFindGenerated [''en''],
          CallIter]\<rparr>)"
proof -
  have h1: "2 \<le> length command_line"
    by (simp add: command_line_def)
  have h6: "command_line ! 1 = ''abc123''"
    by (simp add: command_line_def)
  have f2: "api_list (serving french_only) (command_line ! 1) = Inr french_only"
    by (simp add: serving_def)
  have f3: "find_transcript french_only [''en''] =
      Inl (NoTranscriptFound ''No transcripts were found'')"
    by (simp add: french_only_def not_found_def)
  have f4: "find_generated_transcript french_only [''en''] =
      Inl (NoTranscriptFound ''No transcripts were found'')"
    by (simp add: french_only_def not_found_def)
  have f5: "tracks french_only = [fr_manual]"
    by (simp add: french_only_def)
  have n2: "api_list (serving no_tracks) (command_line ! 1) = Inr no_tracks"
    by (simp add: serving_def)
  have n3: "find_transcript no_tracks [''en''] =
      Inl (NoTranscriptFound ''No transcripts were found'')"
    by (simp add: no_tracks_def not_found_def)
  have n4: "find_generated_transcript no_tracks [''en''] =
      Inl (NoTranscriptFound ''No transcripts were found'')"
    by (simp add: no_tracks_def not_found_def)
  have n5: "tracks no_tracks = []"
    by (simp add: no_tracks_def)
  from first_track_fallback [OF h1 f2 f3 f4] first_track_fallback [OF h1 n2 n3 n4]
    h1 h6 f2 f3 f4 f5 n2 n3 n4 n5
  show ?thesis by simp
qed

section \<open>Normalisation of the entries\<close>

text \<open>
  C2 as worded, for every fetched sequence and each entry in whichever form it has, does
  not hold. In the sequence \<open>mixed\<close> the first entry is an object and the second a
  dictionary; both carry the three fields. The script looks at the first entry only, so
  it reads attributes of the dictionary too: no record is produced, and the run prints
  an error object and exits with status 1. Nor is the time read from an offset field:
  the dictionary of \<open>offset_keyed\<close> has text, duration and offset, and the lookup of
  start raises.
\<close>

theorem mixed_sequence_rejected:
  "normal_record (mixed ! 0) =
     Some [(''text'', PyStr ''Hello''), (''duration'', PyNum (5 / 2)), (''offset'', PyNum 0)] \<and>
   normal_record (mixed ! 1) =
     Some [(''text'', PyStr ''world''), (''duration'', PyNum 1), (''offset'', PyNum (5 / 2))] \<and>
   formatted mixed =
     Inl (AttributeError (quoted ''dict'' @ '' object has no attribute '' @ quoted ''text'')) \<and>
   run (serving mixed_only) command_line =
     (Exited 1,
      \<lparr>stdout =
         [JObject [(''error'',
            JString (quoted ''dict'' @ '' object has no attribute '' @ quoted ''text''))]],
       calls = [CallList ''abc123'', CallFindTranscript [''en''], CallFetch en_mixed]\<rparr>) \<and>
   formatted offset_keyed = Inl (KeyError (quoted ''start''))"
  by (simp add: script_defs command_line_def serving_def mixed_only_def lookup_def
      en_mixed_def mixed_def offset_keyed_def normal_record_def)

text \<open>
  C2, amended. For a sequence whose entries all have the form of the first one (all
  objects with attributes, or all dictionaries) and each carry text, duration and start,
  the script's normalisation returns, in order, the normal record of every entry: keys
  text, duration and offset, with offset taken from start.
\<close>

theorem uniform_sequence_normalised:
  assumes "same_form data"
    and "list_all (\<lambda>i. normal_record i \<noteq> None) data"
  shows "\<exists>rs. formatted data = Inr rs \<and> map normal_record data = map Some rs"
proof -
  from assms(2) obtain rs where "map normal_record data = map Some rs"
    unfolding all_defined_map ..
  with assms(1) show ?thesis
    by (auto simp: formatted_Inr)
qed

theorem uniform_sequence_normalised_witness:
  "same_form hello \<and>
   list_all (\<lambda>i. normal_record i \<noteq> None) hello \<and>
   formatted hello =
     Inr [[(''text'', PyStr ''Hello''), (''duration'', PyNum (5 / 2)), (''offset'', PyNum 0)]] \<and>
   same_form hello_objects \<and>
   list_all (\<lambda>i. normal_record i \<noteq> None) hello_objects \<and>
   formatted hello_objects =
     Inr [[(''text'', PyStr ''Hello''), (''duration'', PyNum (5 / 2)), (''offset'', PyNum 0)],
          [(''text'', PyStr ''world''), (''duration'', PyNum 1), (''offset'', PyNum (5 / 2))]]"
proof -
  have d1: "same_form hello"
    by (simp add: hello_def)
  have d2: "list_all (\<lambda>i. normal_record i \<noteq> None) hello"
    by (simp add: hello_def normal_record_def)
  have n1: "map normal_record hello =
      map Some [[(''text'', PyStr ''Hello''), (''duration'', PyNum (5 / 2)),
        (''offset'', PyNum 0)]]"
    by (simp add: hello_def normal_record_def)
  have o1: "same_form hello_objects"
    by (simp add: hello_objects_def)
  have o2: "list_all (\<lambda>i. normal_record i \<noteq> None) hello_objects"
    by (simp add: hello_objects_def normal_record_def)
  have n2: "map normal_record hello_objects =
      map Some
        [[(''text'', PyStr ''Hello''), (''duration'', PyNum (5 / 2)), (''offset'', PyNum 0)],
         [(''text'', PyStr ''world''), (''duration'', PyNum 1), (''offset'', PyNum (5 / 2))]]"
    by (simp add: hello_objects_def normal_record_def)
  from uniform_sequence_normalised [OF d1 d2] n1 obtain rs
    where r1: "formatted hello = Inr rs"
      and "map Some rs = map Some [[(''text'', PyStr ''Hello''), (''duration'', PyNum (5 / 2)),
        (''offset'', PyNum 0)]]"
    by auto
  then have e1: "formatted hello =
      Inr [[(''text'', PyStr ''Hello''), (''duration'', PyNum (5 / 2)), (''offset'', PyNum 0)]]"
    using map_injective [OF _ inj_Some] by blast
  from uniform_sequence_normalised [OF o1 o2] n2 obtain qs
    where r2: "formatted hello_objects = Inr qs"
      and "map Some qs = map Some
        [[(''text'', PyStr ''Hello''), (''duration'', PyNum (5 / 2)), (''offset'', PyNum 0)],
         [(''text'', PyStr ''world''), (''duration'', PyNum 1), (''offset'', PyNum (5 / 2))]]"
    by auto
  then have e2: "formatted hello_objects =
      Inr [[(''text'', PyStr ''Hello''), (''duration'', PyNum (5 / 2)), (''offset'', PyNum 0)],
           [(''text'', PyStr ''world''), (''duration'', PyNum 1), (''offset'', PyNum (5 / 2))]]"
    using map_injective [OF _ inj_Some] by blast
  from d1 d2 e1 o1 o2 e2 show ?thesis by simp
qed

text \<open>
  C5. Let the selected track fetch the sequence \<open>data\<close>. The run succeeds exactly when
  the entries of \<open>data\<close> have one form and each of them has a normal form that the
  encoder accepts; and when it succeeds, the array printed has the length of \<open>data\<close>
  and its element at each position is the normal form of the entry at that position.
\<close>

theorem order_preserved:
  assumes "2 \<le> length argv"
    and "api_list api (argv ! 1) = Inr transcript_list"
    and "selected transcript_list = Some t"
    and "fetch t = Inr data"
  shows "(fst (run api argv) = Exited 0 \<longleftrightarrow>
            same_form data \<and> list_all (\<lambda>i. normal_json i \<noteq> None) data) \<and>
         (fst (run api argv) = Exited 0 \<longrightarrow>
            (\<exists>js. stdout (snd (run api argv)) = [JArray js] \<and>
               length js = length data \<and>
               (\<forall>n < length data. normal_json (data ! n) = Some (js ! n))))"
proof -
  let ?w = "snd (select_track transcript_list (called (CallList (argv ! 1)) start))"
  have w: "stdout ?w = []" by simp
  have run: "run api argv =
      (case get_transcript api (argv ! 1) start of (r, w) \<Rightarrow> (finish r, w))"
    using assms(1) by (rule run_with_id)
  show ?thesis
  proof (cases "selected transcript_list" ?w rule: emit_cases)
    case (printed t' data' js)
    with assms(3,4) have js: "map normal_json data = map Some js" and sf: "same_form data"
      and e: "emit (Some t) ?w = (Inr (), print (JArray js) (called (CallFetch t) ?w))"
      by simp_all
    from js have len: "length js = length data"
      using length_map [of normal_json data] length_map [of Some js] by simp
    from js have dfd: "list_all (\<lambda>i. normal_json i \<noteq> None) data"
      unfolding all_defined_map by blast
    have "fst (run api argv) = Exited 0" and "stdout (snd (run api argv)) = [JArray js]"
      using e w assms(2,3) by (simp_all add: run get_transcript_listed)
    moreover have "\<forall>n < length data. normal_json (data ! n) = Some (js ! n)"
      using map_Some_nth [OF js] by blast
    ultimately show ?thesis
      using sf dfd len by simp
  next
    case (raised t' e)
    with assms(3) have e: "emit (Some t) ?w = (Inl (Exc e), called (CallFetch t) ?w)"
      by simp
    have "\<not> (same_form data \<and> list_all (\<lambda>i. normal_json i \<noteq> None) data)"
    proof
      assume "same_form data \<and> list_all (\<lambda>i. normal_json i \<noteq> None) data"
      then obtain js where "same_form data" and "map normal_json data = map Some js"
        unfolding all_defined_map by blast
      then have "(case formatted data of Inl e \<Rightarrow> Inl e | Inr ds \<Rightarrow> dumps ds) = Inr (JArray js)"
        unfolding render_Inr by blast
      then show False
        using e assms(4) by (simp add: emit_Some)
    qed
    moreover have "fst (run api argv) = Exited 1"
      using e assms(2,3) by (simp add: run get_transcript_listed handler_eq)
    ultimately show ?thesis by simp
  next
    case none
    with assms(3) show ?thesis by simp
  qed
qed

theorem order_preserved_witness:
  "2 \<le> length command_line \<and>
   api_list (serving generated_only) (command_line ! 1) = Inr generated_only \<and>
   selected generated_only = Some en_generated \<and>
   fetch en_generated = Inr hello_objects \<and>
   same_form hello_objects \<and>
   list_all (\<lambda>i. normal_json i \<noteq> None) hello_objects \<and>
   fst (run (serving generated_only) command_line) = Exited 0 \<and>
   stdout (snd (run (serving generated_only) command_line)) =
     [JArray
       [JObject [(''text'', JString ''Hello''), (''duration'', JNumber (5 / 2)),
          (''offset'', JNumber 0)],
        JObject [(''text'', JString ''world''), (''duration'', JNumber 1),
          (''offset'', JNumber (5 / 2))]]]"
proof -
  have h1: "2 \<le> length command_line"
    by (simp add: command_line_def)
  have h2: "api_list (serving generated_only) (command_line ! 1) = Inr generated_only"
    by (simp add: serving_def)
  have h3: "selected generated_only = Some en_generated"
    by (simp add: selected_def select_track_def generated_only_def lookup_def not_found_def
        en_generated_def)
  have h4: "fetch en_generated = Inr hello_objects"
    by (simp add: en_generated_def)
  have sf: "same_form hello_objects"
    by (simp add: hello_objects_def)
  have j0: "normal_json (hello_objects ! 0) =
      Some (JObject [(''text'', JString ''Hello''), (''duration'', JNumber (5 / 2)),
        (''offset'', JNumber 0)])"
    by (simp add: hello_objects_def normal_json_def normal_record_def encode_dict_def
        encode_member_def)
  have j1: "normal_json (hello_objects ! 1) =
      Some (JObject [(''text'', JString ''world''), (''duration'', JNumber 1),
        (''offset'', JNumber (5 / 2))])"
    by (simp add: hello_objects_def normal_json_def normal_record_def encode_dict_def
        encode_member_def)
  have len: "length hello_objects = 2"
    by (simp add: hello_objects_def)
  have dfd: "list_all (\<lambda>i. normal_json i \<noteq> None) hello_objects"
    using j0 j1 by (simp add: hello_objects_def)
  from order_preserved [OF h1 h2 h3 h4] sf dfd
  obtain js where run: "fst (run (serving generated_only) command_line) = Exited 0"
    and out: "stdout (snd (run (serving generated_only) command_line)) = [JArray js]"
    and l: "length js = length hello_objects"
    and nth: "\<forall>n < length hello_objects. normal_json (hello_objects ! n) = Some (js ! n)"
    by auto
  from l len obtain x y where xy: "js = [x, y]"
    by (auto simp: length_Suc_conv numeral_2_eq_2)
  from nth len have "normal_json (hello_objects ! 0) = Some (js ! 0)"
    and "normal_json (hello_objects ! 1) = Some (js ! 1)"
    by simp_all
  with j0 j1 xy have "x = JObject [(''text'', JString ''Hello''), (''duration'', JNumber (5 / 2)),
        (''offset'', JNumber 0)]"
    and "y = JObject [(''text'', JString ''world''), (''duration'', JNumber 1),
        (''offset'', JNumber (5 / 2))]"
    by simp_all
  with h1 h2 h3 h4 sf dfd run out xy show ?thesis by simp
qed

section \<open>Output and exit status\<close>

text \<open>
  C4. Every run prints a single JSON value; when the run exits with status 0 the value
  is an array, and every element of it is an object with exactly the keys text,
  duration and offset, in this order.
\<close>

theorem output_shape:
  "\<exists>j. stdout (snd (run api argv)) = [j] \<and>
     (fst (run api argv) = Exited 0 \<longrightarrow>
        (\<exists>js. j = JArray js \<and>
           (\<forall>x \<in> set js. \<exists>t d s.
              x = JObject [(''text'', t), (''duration'', d), (''offset'', s)])))"
proof -
  from run_outcome [of api argv] obtain j where out: "stdout (snd (run api argv)) = [j]"
    and st: "fst (run api argv) = Exited 0 \<and> success_array j \<or>
      fst (run api argv) = Exited 1 \<and> has_error_key j"
    by blast
  have "\<exists>js. j = JArray js \<and>
      (\<forall>x \<in> set js. \<exists>t d s. x = JObject [(''text'', t), (''duration'', d), (''offset'', s)])"
    if "fst (run api argv) = Exited 0"
  proof -
    from that st have "success_array j" by auto
    then obtain js where "j = JArray js" and "list_all record_shape js"
      using success_array_elements by blast
    then show ?thesis
      by (auto simp: list_all_iff dest: record_shape_members)
  qed
  with out show ?thesis by blast
qed

theorem output_shape_witness:
  "fst (run (serving generated_only) command_line) = Exited 0 \<and>
   (\<exists>t1 d1 s1 t2 d2 s2.
      stdout (snd (run (serving generated_only) command_line)) =
        [JArray
          [JObject [(''text'', t1), (''duration'', d1), (''offset'', s1)],
           JObject [(''text'', t2), (''duration'', d2), (''offset'', s2)]]])"
proof -
  have a: "fst (run (serving generated_only) command_line) = Exited 0"
    by (simp add: script_defs command_line_def serving_def generated_only_def not_found_def
        lookup_def en_generated_def hello_objects_def)
  have b: "length (case hd (stdout (snd (run (serving generated_only) command_line))) of
      JArray js \<Rightarrow> js | _ \<Rightarrow> []) = 2"
    by (simp add: script_defs command_line_def serving_def generated_only_def not_found_def
        lookup_def en_generated_def hello_objects_def)
  from output_shape [of "serving generated_only" command_line] a
  obtain js where js: "stdout (snd (run (serving generated_only) command_line)) = [JArray js]"
    and sh: "\<forall>x \<in> set js. \<exists>t d s.
      x = JObject [(''text'', t), (''duration'', d), (''offset'', s)]"
    by auto
  from b js have "length js = 2" by simp
  then obtain x y where xy: "js = [x, y]"
    by (auto simp: length_Suc_conv numeral_2_eq_2)
  with sh obtain t1 d1 s1 t2 d2 s2
    where "x = JObject [(''text'', t1), (''duration'', d1), (''offset'', s1)]"
      and "y = JObject [(''text'', t2), (''duration'', d2), (''offset'', s2)]"
    by auto
  with a js xy show ?thesis by blast
qed



text \<open>
  C10. When the selected track fetches an empty sequence of entries, the script prints
  the empty array and exits with status 0.
\<close>

theorem empty_transcript_success:
  assumes "2 \<le> length argv"
    and "api_list api (argv ! 1) = Inr transcript_list"
    and "selected transcript_list = Some t"
    and "fetch t = Inr []"
  shows "fst (run api argv) = Exited 0 \<and> stdout (snd (run api argv)) = [JArray []]"
  using assms
  by (simp add: run_with_id get_transcript_listed emit_Some formatted_def dumps_def)

theorem empty_transcript_success_witness:
  "2 \<le> length command_line \<and>
   api_list (serving silent) (command_line ! 1) = Inr silent \<and>
   selected silent = Some en_silent \<and>
   fetch en_silent = Inr [] \<and>
   fst (run (serving silent) command_line) = Exited 0 \<and>
   stdout (snd (run (serving silent) command_line)) = [JArray []]"
proof -
  have h1: "2 \<le> length command_line"
    by (simp add: command_line_def)
  have h2: "api_list (serving silent) (command_line ! 1) = Inr silent"
    by (simp add: serving_def)
  have h3: "selected silent = Some en_silent"
    by (simp add: selected_def select_track_def silent_def lookup_def en_silent_def)
  have h4: "fetch en_silent = Inr []"
    by (simp add: en_silent_def)
  from empty_transcript_success [OF h1 h2 h3 h4] h1 h2 h3 h4 show ?thesis
    by simp
qed

text \<open>
  C8. With fewer than two elements in the argument vector (no video identifier after the
  script name) the script prints \<^verbatim>\<open>{"error": "No video ID provided"}\<close>, exits with status
  1 and makes no provider call, whatever the provider is.
\<close>

theorem no_video_id:
  "length argv < 2 \<Longrightarrow>
     run api argv =
       (Exited 1,
        \<lparr>stdout = [JObject [(''error'', JString ''No video ID provided'')]], calls = []\<rparr>)"
  by (simp add: run_def main_def print_def start_def error_object_def)

theorem no_video_id_witness:
  "length [''fetch_transcript.py''] < 2 \<and>
   run (serving all_three) [''fetch_transcript.py''] =
     (Exited 1,
      \<lparr>stdout = [JObject [(''error'', JString ''No video ID provided'')]], calls = []\<rparr>)"
  using no_video_id [of "[''fetch_transcript.py'']" "serving all_three"] by simp

section \<open>Errors of the provider\<close>

text \<open>
  C3 as worded, for every invocation in which the provider raises no-transcript-found,
  does not hold. For a video with a French track only, both English lookups raise
  \<^verbatim>\<open>NoTranscriptFound\<close>; the bare \<^verbatim>\<open>except:\<close> clauses absorb the two errors, the French
  track is fetched, and the run prints the success array and exits with status 0.
\<close>

theorem lookup_error_absorbed:
  "find_transcript french_only [''en''] =
     Inl (NoTranscriptFound ''No transcripts were found'') \<and>
   find_generated_transcript french_only [''en''] =
     Inl (NoTranscriptFound ''No transcripts were found'') \<and>
   run (serving french_only) command_line =
     (Exited 0,
      \<lparr>stdout =
         [JArray [JObject [(''text'', JString ''Bonjour''), (''duration'', JNumber 2),
            (''offset'', JNumber 0)]]],
       calls =
         [CallList ''abc123'', CallFindTranscript [''en''], CallFindGenerated [''en''],
          CallIter, CallFetch fr_manual]\<rparr>)"
  by (simp add: script_defs command_line_def serving_def french_only_def not_found_def
      fr_manual_def bonjour_def)

text \<open>
  C3, amended. When listing the tracks of the video, or fetching the entries of the
  selected track, raises \<^verbatim>\<open>TranscriptsDisabled\<close> or \<^verbatim>\<open>NoTranscriptFound\<close>, the script prints
  the object whose error key holds the message of the error and exits with status 1; the
  run ends by \<^verbatim>\<open>sys.exit\<close>, not by an uncaught exception.
\<close>

theorem unavailable_reported:
  assumes "2 \<le> length argv"
    and "unavailable e"
    and "api_list api (argv ! 1) = Inl e \<or>
      (\<exists>transcript_list t. api_list api (argv ! 1) = Inr transcript_list \<and>
         selected transcript_list = Some t \<and> fetch t = Inl e)"
  shows "fst (run api argv) = Exited 1 \<and>
    stdout (snd (run api argv)) = [JObject [(''error'', JString (str e))]]"
  using assms(1,3)
  by (auto simp: run_with_id get_transcript_unlisted get_transcript_listed emit_Some
      handler_eq error_object_def)

theorem unavailable_reported_witness:
  "2 \<le> length command_line \<and>
   unavailable (TranscriptsDisabled ''Subtitles are disabled'') \<and>
   api_list disabled (command_line ! 1) = Inl (TranscriptsDisabled ''Subtitles are disabled'') \<and>
   fst (run disabled command_line) = Exited 1 \<and>
   stdout (snd (run disabled command_line)) =
     [JObject [(''error'', JString ''Subtitles are disabled'')]] \<and>
   unavailable (NoTranscriptFound ''No transcripts were found'') \<and>
   api_list (serving blocked) (command_line ! 1) = Inr blocked \<and>
   selected blocked = Some en_blocked \<and>
   fetch en_blocked = Inl (NoTranscriptFound ''No transcripts were found'') \<and>
   fst (run (serving blocked) command_line) = Exited 1 \<and>
   stdout (snd (run (serving blocked) command_line)) =
     [JObject [(''error'', JString ''No transcripts were found'')]]"
proof -
  have h1: "2 \<le> length command_line"
    by (simp add: command_line_def)
  have d2: "unavailable (TranscriptsDisabled ''Subtitles are disabled'')"
    by simp
  have d3: "api_list disabled (command_line ! 1) =
      Inl (TranscriptsDisabled ''Subtitles are disabled'')"
    by (simp add: disabled_def)
  have b2: "unavailable (NoTranscriptFound ''No transcripts were found'')"
    by simp
  have b3: "api_list (serving blocked) (command_line ! 1) = Inr blocked"
    by (simp add: serving_def)
  have b4: "selected blocked = Some en_blocked"
    by (simp add: selected_def select_track_def blocked_def lookup_def en_blocked_def)
  have b5: "fetch en_blocked = Inl (NoTranscriptFound ''No transcripts were found'')"
    by (simp add: en_blocked_def)
  from b3 b4 b5 have b6: "api_list (serving blocked) (command_line ! 1) =
        Inl (NoTranscriptFound ''No transcripts were found'') \<or>
      (\<exists>transcript_list t. api_list (serving blocked) (command_line ! 1) = Inr transcript_list \<and>
         selected transcript_list = Some t \<and>
         fetch t = Inl (NoTranscriptFound ''No transcripts were found''))"
    by blast
  from d3 have d6: "api_list disabled (command_line ! 1) =
        Inl (TranscriptsDisabled ''Subtitles are disabled'') \<or>
      (\<exists>transcript_list t. api_list disabled (command_line ! 1) = Inr transcript_list \<and>
         selected transcript_list = Some t \<and>
         fetch t = Inl (TranscriptsDisabled ''Subtitles are disabled''))"
    by blast
  from unavailable_reported [OF h1 d2 d6] unavailable_reported [OF h1 b2 b6]
    h1 d2 d3 b2 b3 b4 b5
  show ?thesis by simp
qed

end
